theory Spec2Isabelle
  imports Complex_Main
begin

section \<open>Python values and numpy arithmetic\<close>

text \<open>
  The notebook's functions are duck-typed: \<open>line\<close> is called on numpy arrays and could be
  called on plain numbers, and the placeholder dictionary of Example 2 holds \<open>None\<close>.
  A value is therefore \<open>None\<close>, a number, or a one-dimensional array of numbers.

  A number is a float: a finite real, or one of the three special values \<open>inf\<close>,
  \<open>-inf\<close> and \<open>nan\<close>, which a caller can pass in and which numpy returns from a
  division by zero or the logarithm of zero. Arithmetic on the special values follows
  IEEE 754. Arithmetic on finite values is exact: there is no rounding, no signed zero,
  and a finite result never overflows (neither to \<open>inf\<close> nor, for \<open>**\<close> on a Python
  float, to an \<open>OverflowError\<close>); Python's \<open>int\<close> is covered exactly. Where a
  theorem compares two expressions that a finite overflow would tell apart, it carries
  a hypothesis that keeps the operands in the range of a double, \<open>float_max\<close>.
\<close>

datatype error = TypeError | ValueError | KeyError string | AttributeError string

datatype float64 = Fin real | PInf | NInf | NaN

datatype pyval = PyNone | Num float64 | Arr "float64 list"

abbreviation fin_num :: "real \<Rightarrow> pyval" where
  "fin_num a \<equiv> Num (Fin a)"

abbreviation fin_arr :: "real list \<Rightarrow> pyval" where
  "fin_arr xs \<equiv> Arr (map Fin xs)"

definition float_max :: real where
  \<comment> \<open>the largest finite double\<close>
  "float_max = (2 - 1 / 2 ^ 52) * 2 ^ 1023"

fun fneg :: "float64 \<Rightarrow> float64" where
  "fneg (Fin a) = Fin (- a)"
| "fneg PInf = NInf"
| "fneg NInf = PInf"
| "fneg NaN = NaN"

fun fadd :: "float64 \<Rightarrow> float64 \<Rightarrow> float64" where
  "fadd (Fin a) (Fin b) = Fin (a + b)"
| "fadd NaN _ = NaN"
| "fadd _ NaN = NaN"
| "fadd PInf NInf = NaN"
| "fadd NInf PInf = NaN"
| "fadd PInf _ = PInf"
| "fadd _ PInf = PInf"
| "fadd NInf _ = NInf"
| "fadd _ NInf = NInf"

definition fsub :: "float64 \<Rightarrow> float64 \<Rightarrow> float64" where
  "fsub u v = fadd u (fneg v)"

text \<open>An infinity times (or divided by) a finite value of the given sign.\<close>

definition scaled_inf :: "float64 \<Rightarrow> real \<Rightarrow> float64" where
  "scaled_inf i a = (if a = 0 then NaN else if 0 < a then i else fneg i)"

fun fmul :: "float64 \<Rightarrow> float64 \<Rightarrow> float64" where
  "fmul (Fin a) (Fin b) = Fin (a * b)"
| "fmul NaN _ = NaN"
| "fmul _ NaN = NaN"
| "fmul (Fin a) i = scaled_inf i a"
| "fmul i (Fin b) = scaled_inf i b"
| "fmul PInf PInf = PInf"
| "fmul NInf NInf = PInf"
| "fmul PInf NInf = NInf"
| "fmul NInf PInf = NInf"

text \<open>
  numpy's division: a zero divisor raises nothing and gives \<open>nan\<close> for \<open>0 / 0\<close> and an
  infinity otherwise. Every division of the notebook has a numpy value as divisor.
\<close>

fun fdiv :: "float64 \<Rightarrow> float64 \<Rightarrow> float64" where
  "fdiv (Fin a) (Fin b) = (if b = 0 then scaled_inf PInf a else Fin (a / b))"
| "fdiv NaN _ = NaN"
| "fdiv _ NaN = NaN"
| "fdiv (Fin a) _ = Fin 0"
| "fdiv i (Fin b) = (if 0 \<le> b then i else fneg i)"
| "fdiv _ _ = NaN"

definition fsquare :: "float64 \<Rightarrow> float64" where
  \<comment> \<open>\<open>v**2\<close>\<close>
  "fsquare v = fmul v v"

fun fsqrt :: "float64 \<Rightarrow> float64" where
  "fsqrt (Fin a) = (if 0 \<le> a then Fin (sqrt a) else NaN)"
| "fsqrt PInf = PInf"
| "fsqrt _ = NaN"

fun flog :: "float64 \<Rightarrow> float64" where
  "flog (Fin a) = (if 0 < a then Fin (ln a) else if a = 0 then NInf else NaN)"
| "flog PInf = PInf"
| "flog _ = NaN"

definition fsum :: "float64 list \<Rightarrow> float64" where
  "fsum vs = foldr fadd vs (Fin 0)"

text \<open>Sequencing of computations that may raise: the first exception ends the computation.\<close>

definition and_then :: "error + 'a \<Rightarrow> ('a \<Rightarrow> error + 'b) \<Rightarrow> error + 'b" where
  "and_then m f = (case m of Inl e \<Rightarrow> Inl e | Inr v \<Rightarrow> f v)"

text \<open>
  numpy's broadcasting of a binary operation over two one-dimensional arrays: equal
  lengths combine pointwise, an array of length one is stretched, anything else raises
  \<open>ValueError\<close> (operands could not be broadcast together).
\<close>

definition broadcast ::
  "(float64 \<Rightarrow> float64 \<Rightarrow> float64) \<Rightarrow> float64 list \<Rightarrow> float64 list \<Rightarrow> error + float64 list" where
  "broadcast f xs ys =
     (if length xs = length ys then Inr (map2 f xs ys)
      else if length xs = 1 then Inr (map (f (hd xs)) ys)
      else if length ys = 1 then Inr (map (\<lambda>x. f x (hd ys)) xs)
      else Inl ValueError)"

fun binop :: "(float64 \<Rightarrow> float64 \<Rightarrow> float64) \<Rightarrow> pyval \<Rightarrow> pyval \<Rightarrow> error + pyval" where
  "binop f (Num a) (Num b) = Inr (Num (f a b))"
| "binop f (Num a) (Arr ys) = Inr (Arr (map (f a) ys))"
| "binop f (Arr xs) (Num b) = Inr (Arr (map (\<lambda>x. f x b) xs))"
| "binop f (Arr xs) (Arr ys) = and_then (broadcast f xs ys) (\<lambda>zs. Inr (Arr zs))"
| "binop f _ _ = Inl TypeError"

fun unop :: "(float64 \<Rightarrow> float64) \<Rightarrow> pyval \<Rightarrow> error + pyval" where
  "unop f (Num a) = Inr (Num (f a))"
| "unop f (Arr xs) = Inr (Arr (map f xs))"
| "unop f PyNone = Inl TypeError"

definition py_mul :: "pyval \<Rightarrow> pyval \<Rightarrow> error + pyval" where
  "py_mul = binop fmul"

definition py_add :: "pyval \<Rightarrow> pyval \<Rightarrow> error + pyval" where
  "py_add = binop fadd"

definition py_sub :: "pyval \<Rightarrow> pyval \<Rightarrow> error + pyval" where
  "py_sub = binop fsub"

definition py_div :: "pyval \<Rightarrow> pyval \<Rightarrow> error + pyval" where
  "py_div = binop fdiv"

definition py_neg :: "pyval \<Rightarrow> error + pyval" where
  "py_neg = unop fneg"

definition py_square :: "pyval \<Rightarrow> error + pyval" where
  \<comment> \<open>\<open>v**2\<close>: \<open>inf\<close> for an infinity, \<open>nan\<close> for \<open>nan\<close>, the exact square of a finite
      value, which is the program's result as long as it is at most \<open>float_max\<close>
      (\<open>square_in_range\<close> below)\<close>
  "py_square = unop fsquare"

definition np_sqrt :: "pyval \<Rightarrow> error + pyval" where
  "np_sqrt = unop fsqrt"

definition np_log :: "pyval \<Rightarrow> error + pyval" where
  "np_log = unop flog"

text \<open>\<open>np.sum\<close> of an array is the sum of its elements, of a number the number. The
  notebook applies it to the result of a subtraction, which is never \<open>None\<close>.\<close>

fun np_sum :: "pyval \<Rightarrow> error + pyval" where
  "np_sum (Arr xs) = Inr (Num (fsum xs))"
| "np_sum (Num a) = Inr (Num a)"
| "np_sum PyNone = Inl TypeError"

definition linspace :: "real \<Rightarrow> real \<Rightarrow> nat \<Rightarrow> real list" where
  \<comment> \<open>\<open>np.linspace(start, stop, num)\<close>: \<open>num\<close> evenly spaced samples, both ends included.\<close>
  "linspace start stop num =
     (if num = 1 then [start]
      else map (\<lambda>i. start + real i * ((stop - start) / real (num - 1))) [0..<num])"

text \<open>
  Whether the square of every entry of a value is a finite double: the range in which
  the exact square of the model is what \<open>x**2\<close> computes.
\<close>

fun square_finite :: "float64 \<Rightarrow> bool" where
  "square_finite (Fin a) = (a\<^sup>2 \<le> float_max)"
| "square_finite _ = False"


section \<open>The model functions\<close>

text \<open>
  \<^verbatim>\<open>
  def line(x, a, c):
      return (a * x) + c
  \<close>
\<close>

definition line :: "pyval \<Rightarrow> pyval \<Rightarrow> pyval \<Rightarrow> error + pyval" where
  "line x a c = and_then (py_mul a x) (\<lambda>ax. py_add ax c)"

text \<open>
  \<^verbatim>\<open>
  def quadratic(x, a, b, c):
      return (a * x**2) + (b * x) + c
  \<close>
\<close>

definition quadratic :: "pyval \<Rightarrow> pyval \<Rightarrow> pyval \<Rightarrow> pyval \<Rightarrow> error + pyval" where
  "quadratic x a b c =
     and_then (py_square x) (\<lambda>x2.
     and_then (py_mul a x2) (\<lambda>ax2.
     and_then (py_mul b x) (\<lambda>bx.
     and_then (py_add ax2 bx) (\<lambda>s.
     py_add s c))))"

section \<open>The fake data cell\<close>

text \<open>
  \<^verbatim>\<open>
  np.random.seed(123)
  n = 10
  x = np.linspace(-10, 10, n)
  y = line(x, 0.5, 1)
  y_errs = 0.1 + 1.0 * np.random.rand(n)
  noise = np.random.uniform(-1.5, 1.5, n)
  data = y + noise
  \<close>
  The two pseudo-random draws are inputs of the model: \<open>rand\<close> stands for the array
  returned by \<open>np.random.rand(n)\<close> and \<open>unif\<close> for the one returned by
  \<open>np.random.uniform(-1.5, 1.5, n)\<close>; both generators return finite numbers. The plotting statements that end the cell assign
  nothing and are left out. The variables \<open>n\<close>, \<open>x\<close> and \<open>y\<close> do not depend on the draws;
  they are the constants \<open>n_data\<close>, \<open>x_data\<close> and \<open>y_data\<close>.
\<close>

record fake_data =
  fd_n :: nat
  fd_x :: pyval
  fd_y :: pyval
  fd_y_errs :: pyval
  fd_noise :: pyval
  fd_data :: pyval

definition n_data :: nat where
  "n_data = 10"

definition x_data :: pyval where
  "x_data = fin_arr (linspace (-10) 10 n_data)"

definition y_data :: "error + pyval" where
  "y_data = line x_data (fin_num 0.5) (fin_num 1)"

definition fake_data_cell :: "real list \<Rightarrow> real list \<Rightarrow> error + fake_data" where
  "fake_data_cell rand unif =
     and_then y_data (\<lambda>y.
     and_then (py_mul (fin_num 1.0) (fin_arr rand)) (\<lambda>r.
     and_then (py_add (fin_num 0.1) r) (\<lambda>y_errs.
     and_then (py_add y (fin_arr unif)) (\<lambda>data.
     Inr \<lparr>fd_n = n_data, fd_x = x_data, fd_y = y, fd_y_errs = y_errs,
          fd_noise = fin_arr unif, fd_data = data\<rparr>))))"

section \<open>Priors\<close>

text \<open>
  \<open>bilby.prior.Uniform(minimum, maximum, name)\<close>, as the notebook constructs it: the two
  bounds and the name. A prior dictionary starts empty (\<open>priors = dict()\<close>) and is filled
  by item assignment.
\<close>

datatype prior = Uniform (minimum: real) (maximum: real) (prior_name: string)

definition priors_example1 :: "string \<rightharpoonup> prior" where
  "priors_example1 =
     (Map.empty(''a'' \<mapsto> Uniform 0 1 ''a''))(''c'' \<mapsto> Uniform 0 4 ''c'')"

definition priors_example2 :: "string \<rightharpoonup> prior" where
  "priors_example2 =
     ((Map.empty(''a'' \<mapsto> Uniform 0 1 ''a''))(''c'' \<mapsto> Uniform 0 4 ''c''))
       (''sigma'' \<mapsto> Uniform 0 1 ''sigma'')"

definition priors_example3 :: "string \<rightharpoonup> prior" where
  "priors_example3 =
     ((Map.empty(''a'' \<mapsto> Uniform (-2) 2 ''a''))(''b'' \<mapsto> Uniform (-2) 2 ''b''))
       (''c'' \<mapsto> Uniform (-2) 2 ''c'')"

section \<open>Likelihoods\<close>

text \<open>The formal arguments of the two model functions, as their \<open>def\<close> lines give them.\<close>

definition line_args :: "string list" where
  "line_args = [''x'', ''a'', ''c'']"

definition quadratic_args :: "string list" where
  "quadratic_args = [''x'', ''a'', ''b'', ''c'']"

text \<open>
  \<open>bilby.likelihood.GaussianLikelihood(x, y, func, sigma)\<close> is library code. The model
  keeps what the notebook passes to it, and the one rule of the library that the
  notebook's prior dictionaries rely on: the parameters of the likelihood are the
  arguments of the model function after the first, which is the independent variable
  (the notebook: "each dictionary key corresponds to one of our model parameters").
  Each parameter starts at \<open>None\<close>; with \<open>sigma\<close> passed as an array it is data, not a
  parameter.
\<close>

record 'f gaussian_likelihood =
  gl_x :: pyval
  gl_y :: pyval
  gl_func :: 'f
  gl_sigma :: pyval
  gl_parameters :: "string \<rightharpoonup> pyval"

definition infer_parameters_from_function :: "string list \<Rightarrow> string list" where
  "infer_parameters_from_function args = tl args"

definition GaussianLikelihood ::
  "pyval \<Rightarrow> pyval \<Rightarrow> 'f \<Rightarrow> string list \<Rightarrow> pyval \<Rightarrow> 'f gaussian_likelihood" where
  "GaussianLikelihood x y func func_args sigma =
     \<lparr>gl_x = x, gl_y = y, gl_func = func, gl_sigma = sigma,
      gl_parameters = map_of (map (\<lambda>k. (k, PyNone)) (infer_parameters_from_function func_args))\<rparr>"

text \<open>
  \<^verbatim>\<open>
  class CustomGaussianLikelihood(bilby.likelihood.Likelihood):
      def __init__(self, x, y, y_err, func, parameters):
          super().__init__()
          self.x = x
          self.y = y
          self.y_err = y_err
          self.func = func
          self.parameters = parameters

      def log_likelihood(self):
          self.sigma = np.sqrt((self.y_err**2) + (self.parameters["sigma"]**2))

          self.model = self.func(self.x, self.parameters["a"], self.parameters["c"])
          self.residual = (self.y - self.model)**2

          ln_like = np.sum(- (self.residual / (2 * self.sigma**2))
              - np.log(2 * np.pi * self.sigma**2) / 2)

          return ln_like
  \<close>
  The instance is a record of its attributes (\<open>attr_x\<close> for \<open>self.x\<close>, and so on). The
  three attributes that only \<open>log_likelihood\<close> assigns do not exist on a fresh
  instance: they are optional, and reading a missing one raises \<open>AttributeError\<close>.
  The constructor of the base class is library code; the notebook's methods read no
  attribute that it sets.
\<close>



record likelihood =
  attr_x :: pyval
  attr_y :: pyval
  attr_y_err :: pyval
  attr_func :: "pyval \<Rightarrow> pyval \<Rightarrow> pyval \<Rightarrow> error + pyval"
  attr_parameters :: "string \<rightharpoonup> pyval"
  attr_sigma :: "pyval option"
  attr_model :: "pyval option"
  attr_residual :: "pyval option"

definition CustomGaussianLikelihood ::
  "pyval \<Rightarrow> pyval \<Rightarrow> pyval \<Rightarrow> (pyval \<Rightarrow> pyval \<Rightarrow> pyval \<Rightarrow> error + pyval) \<Rightarrow> (string \<rightharpoonup> pyval)
     \<Rightarrow> likelihood" where
  "CustomGaussianLikelihood x y y_err func parameters =
     \<lparr>attr_x = x, attr_y = y, attr_y_err = y_err, attr_func = func,
      attr_parameters = parameters,
      attr_sigma = None, attr_model = None, attr_residual = None\<rparr>"

definition getitem :: "(string \<rightharpoonup> pyval) \<Rightarrow> string \<Rightarrow> error + pyval" where
  \<comment> \<open>\<open>d[k]\<close>\<close>
  "getitem d k = (case d k of None \<Rightarrow> Inl (KeyError k) | Some v \<Rightarrow> Inr v)"

definition getattr :: "pyval option \<Rightarrow> string \<Rightarrow> error + pyval" where
  \<comment> \<open>reading an attribute that may not have been assigned yet\<close>
  "getattr slot nm = (case slot of None \<Rightarrow> Inl (AttributeError nm) | Some v \<Rightarrow> Inr v)"

text \<open>The right-hand sides of the four statements of \<open>log_likelihood\<close>, operands in
  Python's evaluation order.\<close>

definition sigma_expr :: "likelihood \<Rightarrow> error + pyval" where
  "sigma_expr self =
     and_then (py_square (attr_y_err self)) (\<lambda>ye2.
     and_then (getitem (attr_parameters self) ''sigma'') (\<lambda>s.
     and_then (py_square s) (\<lambda>s2.
     and_then (py_add ye2 s2) np_sqrt)))"

definition model_expr :: "likelihood \<Rightarrow> error + pyval" where
  "model_expr self =
     and_then (getitem (attr_parameters self) ''a'') (\<lambda>a.
     and_then (getitem (attr_parameters self) ''c'') (\<lambda>c.
     attr_func self (attr_x self) a c))"

definition residual_expr :: "likelihood \<Rightarrow> error + pyval" where
  "residual_expr self =
     and_then (getattr (attr_model self) ''model'') (\<lambda>m.
     and_then (py_sub (attr_y self) m) py_square)"

definition ln_like_expr :: "likelihood \<Rightarrow> error + pyval" where
  "ln_like_expr self =
     and_then (getattr (attr_residual self) ''residual'') (\<lambda>r.
     and_then (getattr (attr_sigma self) ''sigma'') (\<lambda>sg.
     and_then (py_square sg) (\<lambda>sg2.
     and_then (py_mul (fin_num 2) sg2) (\<lambda>den.
     and_then (py_div r den) (\<lambda>q.
     and_then (py_neg q) (\<lambda>nq.
     and_then (py_mul (fin_num 2) (fin_num pi)) (\<lambda>two_pi.
     and_then (getattr (attr_sigma self) ''sigma'') (\<lambda>sg'.
     and_then (py_square sg') (\<lambda>sg2'.
     and_then (py_mul two_pi sg2') (\<lambda>arg.
     and_then (np_log arg) (\<lambda>l.
     and_then (py_div l (fin_num 2)) (\<lambda>h.
     and_then (py_sub nq h) np_sum))))))))))))"

text \<open>
  The method returns its outcome together with the instance as the call leaves it: an
  exception in a later statement does not undo the assignments made before it.
\<close>

definition log_likelihood :: "likelihood \<Rightarrow> (error + pyval) \<times> likelihood" where
  "log_likelihood self =
     (case sigma_expr self of
        Inl e \<Rightarrow> (Inl e, self)
      | Inr sg \<Rightarrow>
          let self1 = self\<lparr>attr_sigma := Some sg\<rparr> in
          (case model_expr self1 of
             Inl e \<Rightarrow> (Inl e, self1)
           | Inr m \<Rightarrow>
               let self2 = self1\<lparr>attr_model := Some m\<rparr> in
               (case residual_expr self2 of
                  Inl e \<Rightarrow> (Inl e, self2)
                | Inr r \<Rightarrow>
                    let self3 = self2\<lparr>attr_residual := Some r\<rparr> in
                    (ln_like_expr self3, self3))))"

section \<open>The cells that set up the three fits\<close>

text \<open>
  \<^verbatim>\<open>
  likelihood = bilby.likelihood.GaussianLikelihood(x=x,y=data, func=line, sigma=y_errs)

  parameters = dict(a=None, c=None, sigma=None)
  likelihood = CustomGaussianLikelihood(x=x, y=y, y_err=y_errs, func=line, parameters=parameters)

  likelihood = bilby.likelihood.GaussianLikelihood(x=x,y=data, func=quadratic, sigma=y_errs)
  \<close>
\<close>

definition likelihood_example1 ::
  "fake_data \<Rightarrow> (pyval \<Rightarrow> pyval \<Rightarrow> pyval \<Rightarrow> error + pyval) gaussian_likelihood" where
  "likelihood_example1 d =
     GaussianLikelihood (fd_x d) (fd_data d) line line_args (fd_y_errs d)"

definition parameters_example2 :: "string \<rightharpoonup> pyval" where
  "parameters_example2 =
     ((Map.empty(''a'' \<mapsto> PyNone))(''c'' \<mapsto> PyNone))(''sigma'' \<mapsto> PyNone)"

definition likelihood_example2 :: "fake_data \<Rightarrow> likelihood" where
  "likelihood_example2 d =
     CustomGaussianLikelihood (fd_x d) (fd_y d) (fd_y_errs d) line parameters_example2"

definition likelihood_example3 ::
  "fake_data \<Rightarrow> (pyval \<Rightarrow> pyval \<Rightarrow> pyval \<Rightarrow> pyval \<Rightarrow> error + pyval) gaussian_likelihood" where
  "likelihood_example3 d =
     GaussianLikelihood (fd_x d) (fd_data d) quadratic quadratic_args (fd_y_errs d)"

section \<open>The Bayes factor cell\<close>

text \<open>
  \<^verbatim>\<open>
  lnZ_line = result_line.log_evidence
  lnZ_quad = result_quad.log_evidence
  lnBF = lnZ_line - lnZ_quad
  \<close>
  Of the library's result object the cell reads the scalar log-evidence only.
\<close>

record result =
  log_evidence :: real

definition lnBF :: "result \<Rightarrow> result \<Rightarrow> real" where
  "lnBF result_line result_quad =
     (let lnZ_line = log_evidence result_line;
          lnZ_quad = log_evidence result_quad
      in lnZ_line - lnZ_quad)"

section \<open>Properties of the model functions\<close>

lemma and_then_Inr [simp]: "and_then (Inr v) f = f v"
  by (simp add: and_then_def)

lemma and_then_Inl [simp]: "and_then (Inl e) f = Inl e"
  by (simp add: and_then_def)

lemma fsquare_Fin [simp]: "fsquare (Fin a) = Fin (a\<^sup>2)"
  by (simp add: fsquare_def power2_eq_square)

lemma fsub_Fin [simp]: "fsub (Fin a) (Fin b) = Fin (a - b)"
  by (simp add: fsub_def)


lemma line_Num: "line (fin_num x) (fin_num a) (fin_num c) = Inr (fin_num (a * x + c))"
  by (simp add: line_def py_mul_def py_add_def)

lemma line_Arr:
  "line (fin_arr xs) (fin_num a) (fin_num c) = Inr (fin_arr (map (\<lambda>x. a * x + c) xs))"
  by (simp add: line_def py_mul_def py_add_def comp_def)

lemma quadratic_Num:
  "quadratic (fin_num x) (fin_num a) (fin_num b) (fin_num c)
     = Inr (fin_num (a * x\<^sup>2 + b * x + c))"
  by (simp add: quadratic_def py_square_def py_mul_def py_add_def)

lemma quadratic_Arr:
  "quadratic (fin_arr xs) (fin_num a) (fin_num b) (fin_num c)
     = Inr (fin_arr (map (\<lambda>x. a * x\<^sup>2 + b * x + c) xs))"
  by (simp add: quadratic_def py_square_def py_mul_def py_add_def broadcast_def
      map2_map_map comp_def)

lemma length_linspace: "length (linspace start stop num) = num"
  by (simp add: linspace_def)

lemma x_data_values:
  "x_data = fin_arr [- 10, - (70 / 9), - (50 / 9), - (10 / 3), - (10 / 9),
                     10 / 9, 10 / 3, 50 / 9, 70 / 9, 10]"
  by (simp add: x_data_def n_data_def linspace_def upt_conv_Cons)

lemma y_data_values:
  "y_data = Inr (fin_arr [- 4, - (26 / 9), - (16 / 9), - (2 / 3), 4 / 9,
                          14 / 9, 8 / 3, 34 / 9, 44 / 9, 6])"
  unfolding y_data_def x_data_values line_Arr by simp

text \<open>
  \<^bold>\<open>C1.\<close> \<open>line\<close> is a function of its three arguments alone and returns \<open>a * x + c\<close>: on
  a number, and pointwise on an array. In the fake data cell, \<open>x\<close> is the array of the ten
  evenly spaced points from \<open>-10\<close> to \<open>10\<close>, and \<open>y = line(x, 0.5, 1)\<close> is \<open>0.5 * x + 1\<close>
  at each of them.
\<close>

theorem line_spec:
  "line (fin_num x) (fin_num a) (fin_num c) = Inr (fin_num (a * x + c))
   \<and> line (fin_arr xs) (fin_num a) (fin_num c) = Inr (fin_arr (map (\<lambda>x. a * x + c) xs))
   \<and> (\<exists>pts. x_data = fin_arr pts \<and> length pts = 10
         \<and> pts = [- 10, - (70 / 9), - (50 / 9), - (10 / 3), - (10 / 9),
                  10 / 9, 10 / 3, 50 / 9, 70 / 9, 10]
         \<and> y_data = Inr (fin_arr (map (\<lambda>x. 0.5 * x + 1) pts)))"
  unfolding y_data_def x_data_values line_Arr line_Num by simp

text \<open>
  \<^bold>\<open>C2.\<close> \<open>quadratic\<close> is a function of its four arguments alone and returns
  \<open>a * x\<^sup>2 + b * x + c\<close>: on a number, and pointwise on an array.
\<close>

theorem quadratic_spec:
  "quadratic (fin_num x) (fin_num a) (fin_num b) (fin_num c)
       = Inr (fin_num (a * x\<^sup>2 + b * x + c))
   \<and> quadratic (fin_arr xs) (fin_num a) (fin_num b) (fin_num c)
       = Inr (fin_arr (map (\<lambda>x. a * x\<^sup>2 + b * x + c) xs))"
  by (simp only: quadratic_Num quadratic_Arr)

subsection \<open>The linear model inside the quadratic one\<close>

lemma fadd_zero [simp]: "fadd (Fin 0) v = v"
  by (cases v) simp_all

lemma map_fadd_zero [simp]: "map (fadd (Fin 0)) ts = ts"
  by (induction ts) simp_all



lemma square_finite_Fin: "square_finite v \<Longrightarrow> \<exists>r. v = Fin r"
  by (cases v) simp_all






section \<open>The Bayes factor\<close>

text \<open>
  \<^bold>\<open>C4.\<close> The log Bayes factor of the notebook is the log-evidence of the linear fit
  minus that of the quadratic fit. Whenever the two log-evidences are the logarithms of
  positive evidences \<open>Z_line\<close> and \<open>Z_quad\<close>, it is the logarithm of their ratio; read as
  evidences \<open>exp lnZ\<close>, they always are.
\<close>

theorem lnBF_spec:
  "lnBF result_line result_quad = log_evidence result_line - log_evidence result_quad
   \<and> (\<forall>Z_line Z_quad. 0 < Z_line \<and> 0 < Z_quad
         \<and> log_evidence result_line = ln Z_line \<and> log_evidence result_quad = ln Z_quad
       \<longrightarrow> lnBF result_line result_quad = ln (Z_line / Z_quad))
   \<and> lnBF result_line result_quad
       = ln (exp (log_evidence result_line) / exp (log_evidence result_quad))"
  by (simp add: lnBF_def ln_div)

theorem lnBF_spec_witness:
  "lnBF \<lparr>log_evidence = ln 6\<rparr> \<lparr>log_evidence = ln 2\<rparr> = ln (6 / 2)"
proof -
  have "0 < (6::real) \<and> 0 < (2::real)
    \<and> log_evidence \<lparr>log_evidence = ln 6\<rparr> = ln 6
    \<and> log_evidence \<lparr>log_evidence = ln 2\<rparr> = ln 2" by simp
  with lnBF_spec [of "\<lparr>log_evidence = ln 6\<rparr>" "\<lparr>log_evidence = ln 2\<rparr>"]
  show ?thesis by blast
qed

section \<open>The prior dictionaries\<close>

text \<open>
  \<^bold>\<open>C5.\<close> Each of the three prior dictionaries binds every key to a uniform prior with
  the bounds the notebook gives, the lower bound strictly below the upper one, and its
  keys are exactly the parameters of the likelihood it is sampled with: \<open>a\<close>, \<open>c\<close> for
  the line fit of Example 1, \<open>a\<close>, \<open>c\<close>, \<open>sigma\<close> for the custom likelihood of Example 2,
  and \<open>a\<close>, \<open>b\<close>, \<open>c\<close> for the quadratic fit of Example 3.
\<close>

theorem priors_spec:
  "priors_example1 ''a'' = Some (Uniform 0 1 ''a'')
   \<and> priors_example1 ''c'' = Some (Uniform 0 4 ''c'')
   \<and> priors_example2 ''a'' = Some (Uniform 0 1 ''a'')
   \<and> priors_example2 ''c'' = Some (Uniform 0 4 ''c'')
   \<and> priors_example2 ''sigma'' = Some (Uniform 0 1 ''sigma'')
   \<and> priors_example3 ''a'' = Some (Uniform (-2) 2 ''a'')
   \<and> priors_example3 ''b'' = Some (Uniform (-2) 2 ''b'')
   \<and> priors_example3 ''c'' = Some (Uniform (-2) 2 ''c'')
   \<and> (\<forall>k p. priors_example1 k = Some p \<or> priors_example2 k = Some p
           \<or> priors_example3 k = Some p
         \<longrightarrow> minimum p < maximum p)
   \<and> dom priors_example1 = {''a'', ''c''}
   \<and> dom priors_example2 = {''a'', ''c'', ''sigma''}
   \<and> dom priors_example3 = {''a'', ''b'', ''c''}
   \<and> dom priors_example1 = dom (gl_parameters (likelihood_example1 d))
   \<and> dom priors_example2 = dom (attr_parameters (likelihood_example2 d))
   \<and> dom priors_example3 = dom (gl_parameters (likelihood_example3 d))"
  by (auto simp: priors_example1_def priors_example2_def priors_example3_def
      likelihood_example1_def likelihood_example2_def likelihood_example3_def
      GaussianLikelihood_def CustomGaussianLikelihood_def parameters_example2_def
      infer_parameters_from_function_def line_args_def quadratic_args_def
      split: if_splits)

theorem priors_spec_witness:
  "priors_example3 ''b'' = Some (Uniform (-2) 2 ''b'')
   \<and> minimum (Uniform (-2) 2 ''b'') < maximum (Uniform (-2) 2 ''b'')"
proof -
  define d where "d = \<lparr>fd_n = 0, fd_x = PyNone, fd_y = PyNone, fd_y_errs = PyNone,
    fd_noise = PyNone, fd_data = PyNone\<rparr>"
  have b: "priors_example3 ''b'' = Some (Uniform (-2) 2 ''b'')"
    using priors_spec [of d] by (elim conjE) assumption
  have "\<forall>k p. priors_example1 k = Some p \<or> priors_example2 k = Some p
           \<or> priors_example3 k = Some p
         \<longrightarrow> minimum p < maximum p"
    using priors_spec [of d] by (elim conjE) assumption
  then have "priors_example3 ''b'' = Some (Uniform (-2) 2 ''b'')
      \<longrightarrow> minimum (Uniform (-2) 2 ''b'') < maximum (Uniform (-2) 2 ''b'')"
    by blast
  with b show ?thesis by blast
qed

section \<open>The dependent variable of the three fits\<close>

lemma map2_Fin:
  "map2 f (map Fin ys) (map Fin vs) = map2 (\<lambda>a b. f (Fin a) (Fin b)) ys vs"
  by (induction ys vs rule: list_induct2') simp_all

lemma map2_add_neq:
  assumes "length ys = length vs" "\<exists>v\<in>set vs. v \<noteq> (0::real)"
  shows "map2 (\<lambda>a b. Fin (a + b)) ys vs \<noteq> map Fin ys"
  using assms by (induction ys vs rule: list_induct2) auto

lemma map_add_neq:
  assumes "ys \<noteq> []" "v \<noteq> (0::real)"
  shows "map (\<lambda>y. Fin (y + v)) ys \<noteq> map Fin ys"
  using assms by (cases ys) auto

lemma py_add_noise_neq:
  assumes "py_add (fin_arr ys) (fin_arr vs) = Inr d" "length ys \<noteq> 1" "ys \<noteq> []"
    "\<exists>v\<in>set vs. v \<noteq> 0"
  shows "d \<noteq> fin_arr ys"
proof (cases "length ys = length vs")
  case True
  with assms have "d = Arr (map2 (\<lambda>a b. Fin (a + b)) ys vs)"
    by (auto simp: py_add_def broadcast_def map2_Fin)
  with map2_add_neq[OF True assms(4)] show ?thesis by simp
next
  case False
  with assms have "length vs = 1"
    by (auto simp: py_add_def broadcast_def split: if_splits)
  then obtain v where "vs = [v]" by (cases vs) auto
  with assms False have "d = Arr (map (\<lambda>y. Fin (y + v)) ys)" "v \<noteq> 0"
    by (auto simp: py_add_def broadcast_def comp_def)
  with map_add_neq[OF assms(3), of v] show ?thesis by simp
qed

text \<open>With \<open>n\<close> noise draws, as \<open>np.random.uniform(-1.5, 1.5, n)\<close> returns them, the cell
  runs to its end.\<close>

lemma fake_data_cell_returns:
  assumes "length unif = n_data"
  shows "\<exists>d. fake_data_cell rand unif = Inr d"
  using assms unfolding fake_data_cell_def y_data_values
  by (simp add: py_mul_def py_add_def broadcast_def n_data_def)

text \<open>
  \<^bold>\<open>C8.\<close> Once the fake data cell has run, the custom likelihood of Example 2 is built
  on the noiseless \<open>y = line(x, 0.5, 1)\<close>, the Gaussian likelihoods of Examples 1 and 3 on
  \<open>data = y + noise\<close>; when some noise draw is not zero, the dependent variable of
  Example 2 differs from that of the other two fits.
\<close>

theorem example2_fits_noiseless_data:
  assumes "fake_data_cell rand unif = Inr d"
  shows "Inr (attr_y (likelihood_example2 d)) = line x_data (fin_num 0.5) (fin_num 1)
    \<and> attr_x (likelihood_example2 d) = x_data
    \<and> gl_x (likelihood_example1 d) = x_data
    \<and> gl_x (likelihood_example3 d) = x_data
    \<and> gl_y (likelihood_example1 d) = fd_data d
    \<and> gl_y (likelihood_example3 d) = fd_data d
    \<and> fd_noise d = fin_arr unif
    \<and> py_add (attr_y (likelihood_example2 d)) (fd_noise d) = Inr (fd_data d)
    \<and> ((\<exists>v\<in>set unif. v \<noteq> 0) \<longrightarrow>
          attr_y (likelihood_example2 d) \<noteq> gl_y (likelihood_example1 d)
        \<and> attr_y (likelihood_example2 d) \<noteq> gl_y (likelihood_example3 d))"
proof -
  define ys :: "real list"
    where "ys = [- 4, - (26 / 9), - (16 / 9), - (2 / 3), 4 / 9, 14 / 9, 8 / 3, 34 / 9, 44 / 9, 6]"
  have ys: "y_data = Inr (fin_arr ys)" "length ys = 10"
    by (simp_all add: y_data_values ys_def)
  from assms have "\<exists>data. py_add (fin_arr ys) (fin_arr unif) = Inr data \<and>
      d = \<lparr>fd_n = n_data, fd_x = x_data, fd_y = fin_arr ys,
           fd_y_errs = fin_arr (map (\<lambda>r. 0.1 + 1.0 * r) rand), fd_noise = fin_arr unif,
           fd_data = data\<rparr>"
    unfolding fake_data_cell_def ys(1)
    by (cases "py_add (fin_arr ys) (fin_arr unif)") (auto simp: py_mul_def py_add_def comp_def)
  then have d: "fd_y d = fin_arr ys" "fd_x d = x_data" "fd_noise d = fin_arr unif"
    and data: "py_add (fin_arr ys) (fin_arr unif) = Inr (fd_data d)"
    by auto
  have neq: "fd_data d \<noteq> fin_arr ys" if "\<exists>v\<in>set unif. v \<noteq> 0"
    using data that ys(2) by (intro py_add_noise_neq[of ys unif]) auto
  have sel: "attr_y (likelihood_example2 d) = fin_arr ys"
      "attr_x (likelihood_example2 d) = x_data"
      "gl_y (likelihood_example1 d) = fd_data d" "gl_y (likelihood_example3 d) = fd_data d"
      "gl_x (likelihood_example1 d) = x_data" "gl_x (likelihood_example3 d) = x_data"
    using d by (simp_all add: likelihood_example1_def likelihood_example2_def
        likelihood_example3_def GaussianLikelihood_def CustomGaussianLikelihood_def)
  have "Inr (fin_arr ys) = line x_data (fin_num 0.5) (fin_num 1)"
    using ys(1) by (simp add: y_data_def)
  with sel d(3) data neq show ?thesis
    by (simp del: One_nat_def) metis
qed

theorem example2_fits_noiseless_data_witness:
  "\<exists>d. fake_data_cell (replicate 10 0) [1, 0, 0, 0, 0, 0, 0, 0, 0, 0] = Inr d
     \<and> attr_y (likelihood_example2 d) \<noteq> gl_y (likelihood_example1 d)
     \<and> attr_y (likelihood_example2 d) \<noteq> gl_y (likelihood_example3 d)"
proof -
  obtain d where d: "fake_data_cell (replicate 10 0) [1, 0, 0, 0, 0, 0, 0, 0, 0, 0] = Inr d"
    using fake_data_cell_returns[of "[1, 0, 0, 0, 0, 0, 0, 0, 0, 0]" "replicate 10 0"]
    by (auto simp: n_data_def)
  have "\<exists>v\<in>set [1, 0, 0, 0, 0, 0, 0, 0, 0, 0::real]. v \<noteq> 0" by simp
  with example2_fits_noiseless_data[OF d] d show ?thesis by blast
qed

section \<open>The custom Gaussian likelihood\<close>

subsection \<open>The four statements on arrays of finite numbers\<close>









text \<open>The other hypotheses are needed as well: data arrays of different lengths do not
  broadcast, and a vanishing variance makes the sum \<open>nan\<close>.\<close>

lemma log_likelihood_length_mismatch:
  "fst (log_likelihood
     (CustomGaussianLikelihood (fin_arr [0, 1, 2]) (fin_arr [1, 3]) (fin_arr [3, 3, 3]) line
        (((Map.empty(''a'' \<mapsto> fin_num 1))(''c'' \<mapsto> fin_num 1))(''sigma'' \<mapsto> fin_num 4))))
   = Inl ValueError"
  by (simp add: log_likelihood_def CustomGaussianLikelihood_def sigma_expr_def model_expr_def
      residual_expr_def getitem_def getattr_def line_def
      py_square_def py_add_def py_sub_def py_mul_def np_sqrt_def broadcast_def)

lemma log_likelihood_zero_variance:
  "fst (log_likelihood
     (CustomGaussianLikelihood (fin_arr [0]) (fin_arr [1]) (fin_arr [0]) line
        (((Map.empty(''a'' \<mapsto> fin_num 1))(''c'' \<mapsto> fin_num 1))(''sigma'' \<mapsto> fin_num 0))))
   = Inr (Num NaN)"
  by (simp add: log_likelihood_def CustomGaussianLikelihood_def sigma_expr_def model_expr_def
      residual_expr_def ln_like_expr_def getitem_def getattr_def line_def
      py_square_def py_add_def py_sub_def py_mul_def py_div_def py_neg_def np_sqrt_def
      np_log_def broadcast_def fsum_def scaled_inf_def fsub_def)

subsection \<open>What a call changes\<close>

lemma sigma_expr_indep [simp]:
  "sigma_expr (self\<lparr>attr_sigma := s0\<rparr>) = sigma_expr self"
  "sigma_expr (self\<lparr>attr_model := m0\<rparr>) = sigma_expr self"
  "sigma_expr (self\<lparr>attr_residual := r0\<rparr>) = sigma_expr self"
  by (simp_all add: sigma_expr_def)

lemma model_expr_indep [simp]:
  "model_expr (self\<lparr>attr_sigma := s0\<rparr>) = model_expr self"
  "model_expr (self\<lparr>attr_model := m0\<rparr>) = model_expr self"
  "model_expr (self\<lparr>attr_residual := r0\<rparr>) = model_expr self"
  by (simp_all add: model_expr_def)

lemma residual_expr_indep [simp]:
  "residual_expr (self\<lparr>attr_sigma := s0\<rparr>) = residual_expr self"
  "residual_expr (self\<lparr>attr_residual := r0\<rparr>) = residual_expr self"
  by (simp_all add: residual_expr_def)

lemma residual_expr_model:
  "residual_expr (self\<lparr>attr_model := Some m\<rparr>) = and_then (py_sub (attr_y self) m) py_square"
  by (simp add: residual_expr_def getattr_def)

lemma log_likelihood_frame:
  "attr_x (snd (log_likelihood self)) = attr_x self
   \<and> attr_y (snd (log_likelihood self)) = attr_y self
   \<and> attr_y_err (snd (log_likelihood self)) = attr_y_err self
   \<and> attr_func (snd (log_likelihood self)) = attr_func self
   \<and> attr_parameters (snd (log_likelihood self)) = attr_parameters self"
  by (simp add: log_likelihood_def Let_def split: sum.splits)

text \<open>The instance a call leaves behind, by the statement that raises.\<close>

lemma log_likelihood_raises_in_sigma:
  "sigma_expr self = Inl e \<Longrightarrow> log_likelihood self = (Inl e, self)"
  by (simp add: log_likelihood_def)

lemma log_likelihood_raises_in_model:
  "sigma_expr self = Inr sg \<Longrightarrow> model_expr self = Inl e \<Longrightarrow>
   log_likelihood self = (Inl e, self\<lparr>attr_sigma := Some sg\<rparr>)"
  by (simp add: log_likelihood_def Let_def)

lemma log_likelihood_raises_in_residual:
  "sigma_expr self = Inr sg \<Longrightarrow> model_expr self = Inr m \<Longrightarrow>
   and_then (py_sub (attr_y self) m) py_square = Inl e \<Longrightarrow>
   log_likelihood self = (Inl e, self\<lparr>attr_sigma := Some sg, attr_model := Some m\<rparr>)"
  by (simp add: log_likelihood_def Let_def residual_expr_model)

lemma log_likelihood_assigns_all:
  "sigma_expr self = Inr sg \<Longrightarrow> model_expr self = Inr m \<Longrightarrow>
   and_then (py_sub (attr_y self) m) py_square = Inr r \<Longrightarrow>
   snd (log_likelihood self)
     = self\<lparr>attr_sigma := Some sg, attr_model := Some m, attr_residual := Some r\<rparr>"
  by (simp add: log_likelihood_def Let_def residual_expr_model)

lemma log_likelihood_Inr:
  assumes "fst (log_likelihood self) = Inr v"
  shows "\<exists>sg m r. sigma_expr self = Inr sg \<and> model_expr self = Inr m
     \<and> and_then (py_sub (attr_y self) m) py_square = Inr r
     \<and> snd (log_likelihood self) =
         self\<lparr>attr_sigma := Some sg, attr_model := Some m, attr_residual := Some r\<rparr>"
  using assms
  by (auto simp: log_likelihood_def Let_def residual_expr_model split: sum.splits)

lemma log_likelihood_overwrites:
  "fst (log_likelihood (self\<lparr>attr_sigma := s0, attr_model := m0, attr_residual := r0\<rparr>))
     = fst (log_likelihood self)"
  by (simp add: log_likelihood_def Let_def residual_expr_model split: sum.splits)

lemma log_likelihood_again:
  "fst (log_likelihood (snd (log_likelihood self))) = fst (log_likelihood self)"
  by (auto simp: log_likelihood_def Let_def residual_expr_model ln_like_expr_def
      split: sum.splits)

lemma log_likelihood_changes_fresh:
  assumes "fst (log_likelihood self) = Inr v"
    "attr_sigma self = None \<or> attr_model self = None \<or> attr_residual self = None"
  shows "snd (log_likelihood self) \<noteq> self"
proof -
  from log_likelihood_Inr [OF assms(1)] obtain sg m r where
    "snd (log_likelihood self) =
       self\<lparr>attr_sigma := Some sg, attr_model := Some m, attr_residual := Some r\<rparr>"
    by blast
  then have "attr_sigma (snd (log_likelihood self)) \<noteq> None"
    "attr_model (snd (log_likelihood self)) \<noteq> None"
    "attr_residual (snd (log_likelihood self)) \<noteq> None"
    by simp_all
  with assms(2) show ?thesis by metis
qed

lemma log_likelihood_fresh:
  "log_likelihood
     (CustomGaussianLikelihood (fin_arr [0]) (fin_arr [1]) (fin_arr [1]) line
        (((Map.empty(''a'' \<mapsto> fin_num 1))(''c'' \<mapsto> fin_num 1))(''sigma'' \<mapsto> fin_num 0)))
   = (Inr (fin_num (- (ln (2 * pi) / 2))),
      \<lparr>attr_x = fin_arr [0], attr_y = fin_arr [1], attr_y_err = fin_arr [1], attr_func = line,
       attr_parameters =
         ((Map.empty(''a'' \<mapsto> fin_num 1))(''c'' \<mapsto> fin_num 1))(''sigma'' \<mapsto> fin_num 0),
       attr_sigma = Some (fin_arr [1]), attr_model = Some (fin_arr [1]),
       attr_residual = Some (fin_arr [0])\<rparr>)"
  by (simp add: log_likelihood_def CustomGaussianLikelihood_def sigma_expr_def model_expr_def
      residual_expr_def ln_like_expr_def getitem_def getattr_def line_def
      py_square_def py_add_def py_sub_def py_mul_def py_div_def py_neg_def np_sqrt_def
      np_log_def broadcast_def fsum_def)

text \<open>
  \<^bold>\<open>C10.\<close> A call of \<open>log_likelihood\<close> leaves \<open>x\<close>, \<open>y\<close>, \<open>y_err\<close>, \<open>func\<close> and
  \<open>parameters\<close> as they were. It assigns \<open>sigma\<close>, \<open>model\<close> and \<open>residual\<close> in this order,
  each as soon as its right-hand side has been evaluated, whatever the attribute held
  before: a call whose three right-hand sides evaluate, as in every call that returns,
  has overwritten all three; a call that raises in the second or third statement has
  overwritten only what precedes it, and nothing is undone; a call that raises in the
  first statement has changed nothing. So evaluation has a side effect: a call that
  returns changes every instance on which one of the three is still missing, as on a
  fresh one. The outcome does not depend on the three assigned attributes, and a second
  call on the instance as the first left it has the same outcome.
\<close>

theorem log_likelihood_effects:
  "attr_x (snd (log_likelihood self)) = attr_x self
   \<and> attr_y (snd (log_likelihood self)) = attr_y self
   \<and> attr_y_err (snd (log_likelihood self)) = attr_y_err self
   \<and> attr_func (snd (log_likelihood self)) = attr_func self
   \<and> attr_parameters (snd (log_likelihood self)) = attr_parameters self
   \<and> (sigma_expr self = Inl e \<longrightarrow> log_likelihood self = (Inl e, self))
   \<and> (sigma_expr self = Inr sg \<and> model_expr self = Inl e \<longrightarrow>
        log_likelihood self = (Inl e, self\<lparr>attr_sigma := Some sg\<rparr>))
   \<and> (sigma_expr self = Inr sg \<and> model_expr self = Inr m
        \<and> and_then (py_sub (attr_y self) m) py_square = Inl e \<longrightarrow>
        log_likelihood self = (Inl e, self\<lparr>attr_sigma := Some sg, attr_model := Some m\<rparr>))
   \<and> (sigma_expr self = Inr sg \<and> model_expr self = Inr m
        \<and> and_then (py_sub (attr_y self) m) py_square = Inr r \<longrightarrow>
        snd (log_likelihood self)
          = self\<lparr>attr_sigma := Some sg, attr_model := Some m, attr_residual := Some r\<rparr>)
   \<and> (fst (log_likelihood self) = Inr v \<longrightarrow>
        (\<exists>sg m r. sigma_expr self = Inr sg \<and> model_expr self = Inr m
           \<and> and_then (py_sub (attr_y self) m) py_square = Inr r
           \<and> snd (log_likelihood self) =
               self\<lparr>attr_sigma := Some sg, attr_model := Some m, attr_residual := Some r\<rparr>))
   \<and> fst (log_likelihood (self\<lparr>attr_sigma := s0, attr_model := m0, attr_residual := r0\<rparr>))
       = fst (log_likelihood self)
   \<and> fst (log_likelihood (snd (log_likelihood self))) = fst (log_likelihood self)
   \<and> (fst (log_likelihood self) = Inr v
        \<and> (attr_sigma self = None \<or> attr_model self = None \<or> attr_residual self = None)
      \<longrightarrow> snd (log_likelihood self) \<noteq> self)
   \<and> (\<exists>fresh. snd (log_likelihood fresh) \<noteq> fresh)"
proof -
  let ?fresh = "CustomGaussianLikelihood (fin_arr [0]) (fin_arr [1]) (fin_arr [1]) line
        (((Map.empty(''a'' \<mapsto> fin_num 1))(''c'' \<mapsto> fin_num 1))(''sigma'' \<mapsto> fin_num 0))"
  have "fst (log_likelihood ?fresh) = Inr (fin_num (- (ln (2 * pi) / 2)))"
    unfolding log_likelihood_fresh by simp
  moreover have "attr_sigma ?fresh = None"
    by (simp add: CustomGaussianLikelihood_def)
  ultimately have "snd (log_likelihood ?fresh) \<noteq> ?fresh"
    by (intro log_likelihood_changes_fresh) simp_all
  then have fresh: "\<exists>fresh. snd (log_likelihood fresh) \<noteq> fresh" ..
  show ?thesis
    apply (intro conjI impI)
    using log_likelihood_frame [of self] apply simp
    using log_likelihood_frame [of self] apply simp
    using log_likelihood_frame [of self] apply simp
    using log_likelihood_frame [of self] apply simp
    using log_likelihood_frame [of self] apply simp
    apply (erule log_likelihood_raises_in_sigma)
    apply (elim conjE, erule (1) log_likelihood_raises_in_model)
    apply (elim conjE, erule (2) log_likelihood_raises_in_residual)
    apply (elim conjE, erule (2) log_likelihood_assigns_all)
    apply (erule log_likelihood_Inr)
    apply (rule log_likelihood_overwrites)
    apply (rule log_likelihood_again)
    apply (elim conjE, erule (1) log_likelihood_changes_fresh)
    apply (rule fresh)
    done
qed

theorem log_likelihood_effects_witness:
  "log_likelihood
     (CustomGaussianLikelihood (fin_arr [0, 1]) (fin_arr [1, 3]) (fin_arr [3, 3]) line
        (((Map.empty(''a'' \<mapsto> PyNone))(''c'' \<mapsto> PyNone))(''sigma'' \<mapsto> fin_num 4)))
   = (Inl TypeError,
      (CustomGaussianLikelihood (fin_arr [0, 1]) (fin_arr [1, 3]) (fin_arr [3, 3]) line
        (((Map.empty(''a'' \<mapsto> PyNone))(''c'' \<mapsto> PyNone))(''sigma'' \<mapsto> fin_num 4)))
       \<lparr>attr_sigma := Some (fin_arr [5, 5])\<rparr>)
   \<and> snd (log_likelihood
     (CustomGaussianLikelihood (fin_arr [0]) (fin_arr [1]) (fin_arr [1]) line
        (((Map.empty(''a'' \<mapsto> fin_num 1))(''c'' \<mapsto> fin_num 1))(''sigma'' \<mapsto> fin_num 0))))
   = (CustomGaussianLikelihood (fin_arr [0]) (fin_arr [1]) (fin_arr [1]) line
        (((Map.empty(''a'' \<mapsto> fin_num 1))(''c'' \<mapsto> fin_num 1))(''sigma'' \<mapsto> fin_num 0)))
       \<lparr>attr_sigma := Some (fin_arr [1]), attr_model := Some (fin_arr [1]),
        attr_residual := Some (fin_arr [0])\<rparr>"
proof -
  let ?half = "CustomGaussianLikelihood (fin_arr [0, 1]) (fin_arr [1, 3]) (fin_arr [3, 3]) line
        (((Map.empty(''a'' \<mapsto> PyNone))(''c'' \<mapsto> PyNone))(''sigma'' \<mapsto> fin_num 4))"
  let ?fresh = "CustomGaussianLikelihood (fin_arr [0]) (fin_arr [1]) (fin_arr [1]) line
        (((Map.empty(''a'' \<mapsto> fin_num 1))(''c'' \<mapsto> fin_num 1))(''sigma'' \<mapsto> fin_num 0))"
  have sqrt25: "sqrt 25 = 5"
    by (rule real_sqrt_unique) simp_all
  have h1: "sigma_expr ?half = Inr (fin_arr [5, 5])"
    by (simp add: sigma_expr_def CustomGaussianLikelihood_def getitem_def py_square_def
        py_add_def np_sqrt_def sqrt25)
  have h2: "model_expr ?half = Inl TypeError"
    by (simp add: model_expr_def CustomGaussianLikelihood_def getitem_def line_def py_mul_def)
  have "sigma_expr ?half = Inr (fin_arr [5, 5]) \<and> model_expr ?half = Inl TypeError \<longrightarrow>
      log_likelihood ?half = (Inl TypeError, ?half\<lparr>attr_sigma := Some (fin_arr [5, 5])\<rparr>)"
    using log_likelihood_effects
      [where self = ?half and e = TypeError and sg = "fin_arr [5, 5]" and m = PyNone
         and r = PyNone and v = PyNone and ?s0.0 = None and ?m0.0 = None and ?r0.0 = None]
    by (elim conjE) assumption
  with h1 h2 have half:
    "log_likelihood ?half = (Inl TypeError, ?half\<lparr>attr_sigma := Some (fin_arr [5, 5])\<rparr>)"
    by blast
  have f1: "sigma_expr ?fresh = Inr (fin_arr [1])"
    by (simp add: sigma_expr_def CustomGaussianLikelihood_def getitem_def py_square_def
        py_add_def np_sqrt_def)
  have f2: "model_expr ?fresh = Inr (fin_arr [1])"
    by (simp add: model_expr_def CustomGaussianLikelihood_def getitem_def line_def
        py_mul_def py_add_def)
  have f3: "and_then (py_sub (attr_y ?fresh) (fin_arr [1])) py_square = Inr (fin_arr [0])"
    by (simp add: CustomGaussianLikelihood_def py_sub_def py_square_def broadcast_def)
  have "sigma_expr ?fresh = Inr (fin_arr [1]) \<and> model_expr ?fresh = Inr (fin_arr [1])
        \<and> and_then (py_sub (attr_y ?fresh) (fin_arr [1])) py_square = Inr (fin_arr [0]) \<longrightarrow>
        snd (log_likelihood ?fresh)
          = ?fresh\<lparr>attr_sigma := Some (fin_arr [1]), attr_model := Some (fin_arr [1]),
                    attr_residual := Some (fin_arr [0])\<rparr>"
    using log_likelihood_effects
      [where self = ?fresh and e = TypeError and sg = "fin_arr [1]" and m = "fin_arr [1]"
         and r = "fin_arr [0]" and v = PyNone and ?s0.0 = None and ?m0.0 = None
         and ?r0.0 = None]
    by (elim conjE) assumption
  with f1 f2 f3 have
    "snd (log_likelihood ?fresh)
          = ?fresh\<lparr>attr_sigma := Some (fin_arr [1]), attr_model := Some (fin_arr [1]),
                    attr_residual := Some (fin_arr [0])\<rparr>"
    by blast
  with half show ?thesis by blast
qed

text \<open>
  Not every call overwrites the three attributes. On the instance of Example 2 as the
  notebook builds it, its parameters still the placeholders, the call raises
  \<open>TypeError\<close> in its first statement and leaves the instance as it was, the three
  attributes missing.
\<close>

lemma log_likelihood_placeholders:
  "attr_y_err self = Arr errs \<Longrightarrow> attr_parameters self = parameters_example2 \<Longrightarrow>
   log_likelihood self = (Inl TypeError, self)"
  by (simp add: log_likelihood_def sigma_expr_def py_square_def getitem_def
      parameters_example2_def)

theorem log_likelihood_effects_counterexample:
  "log_likelihood
     (CustomGaussianLikelihood x_data
        (fin_arr [- 4, - (26 / 9), - (16 / 9), - (2 / 3), 4 / 9, 14 / 9, 8 / 3, 34 / 9, 44 / 9, 6])
        (fin_arr (replicate 10 (3 / 5))) line parameters_example2)
   = (Inl TypeError,
      CustomGaussianLikelihood x_data
        (fin_arr [- 4, - (26 / 9), - (16 / 9), - (2 / 3), 4 / 9, 14 / 9, 8 / 3, 34 / 9, 44 / 9, 6])
        (fin_arr (replicate 10 (3 / 5))) line parameters_example2)
   \<and> attr_sigma (snd (log_likelihood
     (CustomGaussianLikelihood x_data
        (fin_arr [- 4, - (26 / 9), - (16 / 9), - (2 / 3), 4 / 9, 14 / 9, 8 / 3, 34 / 9, 44 / 9, 6])
        (fin_arr (replicate 10 (3 / 5))) line parameters_example2))) = None"
proof -
  let ?L = "CustomGaussianLikelihood x_data
        (fin_arr [- 4, - (26 / 9), - (16 / 9), - (2 / 3), 4 / 9, 14 / 9, 8 / 3, 34 / 9, 44 / 9, 6])
        (fin_arr (replicate 10 (3 / 5))) line parameters_example2"
  have "log_likelihood ?L = (Inl TypeError, ?L)"
    by (rule log_likelihood_placeholders [where errs = "map Fin (replicate 10 (3 / 5))"])
      (simp_all add: CustomGaussianLikelihood_def)
  moreover have "attr_sigma ?L = None"
    by (simp add: CustomGaussianLikelihood_def)
  ultimately show ?thesis by simp
qed

end
